theory Spec2Isabelle
  imports Complex_Main
begin

section \<open>The keyframe spline animation engine of \<^verbatim>\<open>splineLoader.js\<close>\<close>

text \<open>
  A shallow embedding of the class \<^verbatim>\<open>SplineLoader\<close>. JavaScript numbers are modelled
  as real numbers with exact arithmetic: rounding, NaN and the infinities of IEEE doubles
  and the conversion of the position array to 32-bit floats are outside the model.
  A property that the source reads with a truthiness test (\<^verbatim>\<open>frame.curves\<close>,
  \<^verbatim>\<open>frame.points\<close>, \<^verbatim>\<open>curve.points\<close>, \<^verbatim>\<open>curve.splineIndex\<close>,
  \<^verbatim>\<open>metadata.frameRate\<close>, \<^verbatim>\<open>metadata.closed\<close>) is an \<open>option\<close>: \<open>None\<close> is
  \<^verbatim>\<open>undefined\<close>. An array, also an empty one, is truthy. Reading a property of
  \<^verbatim>\<open>undefined\<close> throws a \<^verbatim>\<open>TypeError\<close>; a throw is the \<open>Inl\<close> branch of a sum.
\<close>

subsection \<open>Data model\<close>

datatype error = TypeError

record point3 =
  x :: real
  y :: real
  z :: real

record bezierPoint =
  knot :: point3
  inHandle :: point3
  outHandle :: point3

text \<open>A curve segment of a frame; \<open>curve_points\<close> is its property \<^verbatim>\<open>points\<close>.\<close>

record curve =
  splineIndex :: "nat option"
  curve_points :: "bezierPoint list option"

text \<open>A keyframe: \<open>frame\<close> is its frame number, \<open>curves\<close> and \<open>points\<close> its two optional arrays.\<close>

record keyframe =
  frame :: real
  curves :: "curve list option"
  points :: "point3 list option"

text \<open>\<open>closed_md\<close> is the property \<^verbatim>\<open>closed\<close> of the metadata.\<close>

record metadata =
  frameRate :: "real option"
  closed_md :: "bool option"

record material =
  color :: nat
  linewidth :: nat

text \<open>
  The \<^verbatim>\<open>THREE.Line\<close> of a track. It holds the track's geometry by reference, so the
  geometry is kept once, in the track.
\<close>

record mesh =
  mesh_name :: string
  mesh_material :: material
  visible :: bool

text \<open>
  A track. \<open>geometry\<close> is the array of the \<^verbatim>\<open>position\<close> attribute of its
  \<^verbatim>\<open>BufferGeometry\<close>, \<open>None\<close> while the attribute has never been set;
  \<open>closed_flag\<close> is the property \<^verbatim>\<open>closed\<close>.
\<close>

record spline =
  name :: string
  frames :: "keyframe list"
  geometry :: "real list option"
  material :: material
  mesh :: "mesh option"
  closed_flag :: bool

text \<open>The fields of a \<^verbatim>\<open>SplineLoader\<close>; \<open>metadata\<close> is undefined until data has been parsed.\<close>

record splineLoader =
  splines :: "spline list"
  currentTime :: real
  duration :: real
  isPlaying :: bool
  loop :: bool
  speed :: real
  metadata :: "metadata option"

text \<open>The value of \<^verbatim>\<open>prevFrame.curves || prevFrame.points\<close> and of the interpolation calls.\<close>

datatype frameData = CurveData "curve list" | PointData "point3 list" | Undefined

subsection \<open>Library functions of three.js\<close>

text \<open>
  Modelled from the spec: \<^verbatim>\<open>THREE.MathUtils.lerp\<close> belongs to the three.js library,
  which is not part of the sources; the spec gives \<open>lerp(a,b,t) = a + (b-a)*t\<close>.
\<close>

definition lerp :: "real \<Rightarrow> real \<Rightarrow> real \<Rightarrow> real" where
  "lerp a b t = a + (b - a) * t"

text \<open>
  Modelled from the spec: \<^verbatim>\<open>THREE.CubicBezierCurve3\<close> and its \<^verbatim>\<open>getPoints\<close> belong to the
  three.js library; the spec describes a cubic Bezier arc through four control positions
  sampled at \<open>segments + 1\<close> evenly spaced curve parameters.
\<close>

definition cubicBezier :: "real \<Rightarrow> real \<Rightarrow> real \<Rightarrow> real \<Rightarrow> real \<Rightarrow> real" where
  "cubicBezier t p0 p1 p2 p3 =
     (1 - t) ^ 3 * p0 + 3 * (1 - t) ^ 2 * t * p1 + 3 * (1 - t) * t ^ 2 * p2 + t ^ 3 * p3"

definition getPoint :: "point3 \<Rightarrow> point3 \<Rightarrow> point3 \<Rightarrow> point3 \<Rightarrow> real \<Rightarrow> point3" where
  "getPoint v0 v1 v2 v3 t =
     \<lparr> x = cubicBezier t (x v0) (x v1) (x v2) (x v3),
       y = cubicBezier t (y v0) (y v1) (y v2) (y v3),
       z = cubicBezier t (z v0) (z v1) (z v2) (z v3) \<rparr>"

definition getPoints :: "point3 \<Rightarrow> point3 \<Rightarrow> point3 \<Rightarrow> point3 \<Rightarrow> nat \<Rightarrow> point3 list" where
  "getPoints v0 v1 v2 v3 divisions =
     map (\<lambda>d. getPoint v0 v1 v2 v3 (real d / real divisions)) [0 ..< Suc divisions]"

subsection \<open>Interpolation\<close>

definition lerpPoint :: "point3 \<Rightarrow> point3 \<Rightarrow> real \<Rightarrow> point3" where
  "lerpPoint p1 p2 t =
     \<lparr> x = lerp (x p1) (x p2) t, y = lerp (y p1) (y p2) t, z = lerp (z p1) (z p2) t \<rparr>"

text \<open>The loop of \<^verbatim>\<open>interpolatePoints\<close>: indices below the shorter length, in order.\<close>

fun interpolatePoints_loop :: "point3 list \<Rightarrow> point3 list \<Rightarrow> real \<Rightarrow> point3 list" where
  "interpolatePoints_loop (p1 # points1) (p2 # points2) t =
     lerpPoint p1 p2 t # interpolatePoints_loop points1 points2 t"
| "interpolatePoints_loop _ _ t = []"

text \<open>
  \<^verbatim>\<open>interpolatePoints\<close> reads \<^verbatim>\<open>points1.length\<close> and \<^verbatim>\<open>points2.length\<close> with no guard:
  an undefined argument throws.
\<close>

definition interpolatePoints ::
  "point3 list option \<Rightarrow> point3 list option \<Rightarrow> real \<Rightarrow> error + point3 list" where
  "interpolatePoints points1 points2 t =
     (case points1 of
        None \<Rightarrow> Inl TypeError
      | Some ps1 \<Rightarrow>
          (case points2 of
             None \<Rightarrow> Inl TypeError
           | Some ps2 \<Rightarrow> Inr (interpolatePoints_loop ps1 ps2 t)))"

definition lerpBezierPoint :: "bezierPoint \<Rightarrow> bezierPoint \<Rightarrow> real \<Rightarrow> bezierPoint" where
  "lerpBezierPoint p1 p2 t =
     \<lparr> knot = lerpPoint (knot p1) (knot p2) t,
       inHandle = lerpPoint (inHandle p1) (inHandle p2) t,
       outHandle = lerpPoint (outHandle p1) (outHandle p2) t \<rparr>"

text \<open>The inner loop of \<^verbatim>\<open>interpolateBezierCurves\<close> over the control points of a pair.\<close>

fun interpolateBezierPoints :: "bezierPoint list \<Rightarrow> bezierPoint list \<Rightarrow> real \<Rightarrow> bezierPoint list" where
  "interpolateBezierPoints (p1 # points1) (p2 # points2) t =
     lerpBezierPoint p1 p2 t # interpolateBezierPoints points1 points2 t"
| "interpolateBezierPoints _ _ t = []"

text \<open>
  \<^verbatim>\<open>curve1.splineIndex || curve2.splineIndex || i + 1\<close>: an absent index and the index 0
  are falsy.
\<close>

definition pickSplineIndex :: "nat option \<Rightarrow> nat option \<Rightarrow> nat \<Rightarrow> nat" where
  "pickSplineIndex s1 s2 i =
     (case s1 of
        Some n1 \<Rightarrow> if n1 \<noteq> 0 then n1
                   else (case s2 of Some n2 \<Rightarrow> if n2 \<noteq> 0 then n2 else i + 1 | None \<Rightarrow> i + 1)
      | None \<Rightarrow> (case s2 of Some n2 \<Rightarrow> if n2 \<noteq> 0 then n2 else i + 1 | None \<Rightarrow> i + 1))"

text \<open>
  The outer loop of \<^verbatim>\<open>interpolateBezierCurves\<close> from index \<open>i\<close> on: a pair of which
  one segment has no \<^verbatim>\<open>points\<close> is skipped.
\<close>

fun interpolateBezierCurves_loop :: "curve list \<Rightarrow> curve list \<Rightarrow> real \<Rightarrow> nat \<Rightarrow> curve list" where
  "interpolateBezierCurves_loop (curve1 # curves1) (curve2 # curves2) t i =
     (case curve_points curve1 of
        None \<Rightarrow> interpolateBezierCurves_loop curves1 curves2 t (Suc i)
      | Some ps1 \<Rightarrow>
          (case curve_points curve2 of
             None \<Rightarrow> interpolateBezierCurves_loop curves1 curves2 t (Suc i)
           | Some ps2 \<Rightarrow>
               \<lparr> splineIndex = Some (pickSplineIndex (splineIndex curve1) (splineIndex curve2) i),
                 curve_points = Some (interpolateBezierPoints ps1 ps2 t) \<rparr>
               # interpolateBezierCurves_loop curves1 curves2 t (Suc i)))"
| "interpolateBezierCurves_loop _ _ t i = []"

definition interpolateBezierCurves :: "curve list \<Rightarrow> curve list \<Rightarrow> real \<Rightarrow> curve list" where
  "interpolateBezierCurves curves1 curves2 t = interpolateBezierCurves_loop curves1 curves2 t 0"

subsection \<open>Tessellation\<close>

text \<open>The loop of \<^verbatim>\<open>generateBezierCurve\<close> over consecutive pairs of control points.\<close>

fun bezierArcs :: "bezierPoint list \<Rightarrow> nat \<Rightarrow> point3 list" where
  "bezierArcs (current # next # rest) segments =
     getPoints (knot current) (outHandle current) (inHandle next) (knot next) segments
     @ bezierArcs (next # rest) segments"
| "bezierArcs _ segments = []"

text \<open>
  \<^verbatim>\<open>generateBezierCurve\<close>: the guard on fewer than two control points returns first; the
  later test for exactly one control point is kept as the source has it.
\<close>

definition generateBezierCurve :: "bezierPoint list option \<Rightarrow> nat \<Rightarrow> point3 list" where
  "generateBezierCurve bezierPoints segments =
     (case bezierPoints of
        None \<Rightarrow> []
      | Some bps \<Rightarrow>
          if length bps < 2 then []
          else
            (let curvePoints = bezierArcs bps segments in
             if length bps = 1 then curvePoints @ [knot (bps ! 0)] else curvePoints))"

text \<open>\<^verbatim>\<open>positions.push(point.x, point.y, point.z)\<close> for every point of a list.\<close>

definition pushPoints :: "point3 list \<Rightarrow> real list" where
  "pushPoints ps = concat (map (\<lambda>point. [x point, y point, z point]) ps)"

subsection \<open>Geometry of one track\<close>

text \<open>\<^verbatim>\<open>this.metadata.frameRate || 30\<close>: an absent frame rate and the frame rate 0 are falsy.\<close>

definition frameRateOrDefault :: "metadata \<Rightarrow> real" where
  "frameRateOrDefault md = (case frameRate md of None \<Rightarrow> 30 | Some r \<Rightarrow> if r = 0 then 30 else r)"

text \<open>
  The scan for the surrounding keyframes, from the frame of index \<open>i\<close> on. Frames are
  named by their index in \<^verbatim>\<open>spline.frames\<close>, so that the identity test
  \<^verbatim>\<open>prevFrame === nextFrame\<close> is equality of indices. Inside the loop \<^verbatim>\<open>nextFrame\<close> is
  still null (the loop breaks as soon as it is set), so \<^verbatim>\<open>!nextFrame\<close> holds there.
\<close>

fun findKeyframes :: "keyframe list \<Rightarrow> real \<Rightarrow> nat \<Rightarrow> nat option \<Rightarrow> nat option \<times> nat option" where
  "findKeyframes [] targetFrame i prevFrame = (prevFrame, None)"
| "findKeyframes (f # fs) targetFrame i prevFrame =
     (let prevFrame' = (if frame f \<le> targetFrame then Some i else prevFrame) in
      if frame f \<ge> targetFrame then (prevFrame', Some i)
      else findKeyframes fs targetFrame (Suc i) prevFrame')"

text \<open>\<^verbatim>\<open>prevFrame.curves || prevFrame.points\<close>.\<close>

definition curvesOrPoints :: "keyframe \<Rightarrow> frameData" where
  "curvesOrPoints f =
     (case curves f of
        Some cs \<Rightarrow> CurveData cs
      | None \<Rightarrow> (case points f of Some ps \<Rightarrow> PointData ps | None \<Rightarrow> Undefined))"

text \<open>
  The value of \<^verbatim>\<open>interpolatedData\<close> for the bracket of the frames of indices \<open>i\<close>
  (\<^verbatim>\<open>prevFrame\<close>) and \<open>j\<close> (\<^verbatim>\<open>nextFrame\<close>).
\<close>

definition interpolateFrames :: "keyframe list \<Rightarrow> real \<Rightarrow> nat \<Rightarrow> nat \<Rightarrow> error + frameData" where
  "interpolateFrames fs targetFrame i j =
     (let prevFrame = fs ! i; nextFrame = fs ! j in
      if i = j then Inr (curvesOrPoints prevFrame)
      else
        (let frameDiff = frame nextFrame - frame prevFrame;
             t = (if frameDiff = 0 then 0 else (targetFrame - frame prevFrame) / frameDiff)
         in case curves prevFrame of
              None \<Rightarrow> map_sum id PointData (interpolatePoints (points prevFrame) (points nextFrame) t)
            | Some curves1 \<Rightarrow>
                (case curves nextFrame of
                   None \<Rightarrow>
                     map_sum id PointData (interpolatePoints (points prevFrame) (points nextFrame) t)
                 | Some curves2 \<Rightarrow> Inr (CurveData (interpolateBezierCurves curves1 curves2 t)))))"

text \<open>\<^verbatim>\<open>interpolatedData && Array.isArray(interpolatedData)\<close>.\<close>

definition isArray :: "frameData \<Rightarrow> bool" where
  "isArray d = (d \<noteq> Undefined)"

text \<open>The positions pushed for one element \<^verbatim>\<open>curve\<close> that is a curve segment.\<close>

definition curvePositions :: "curve \<Rightarrow> real list" where
  "curvePositions c =
     (case curve_points c of
        Some bps \<Rightarrow> pushPoints (generateBezierCurve (Some bps) 20)
      | None \<Rightarrow> [])"

text \<open>
  The array \<^verbatim>\<open>positions\<close>. The first branch runs for every array: on an array of raw
  points each element is a \<^verbatim>\<open>{x, y, z}\<close> whose \<^verbatim>\<open>points\<close> is undefined, so nothing is
  pushed for it. The second branch repeats the condition of the first.
\<close>

definition buildPositions :: "frameData \<Rightarrow> real list" where
  "buildPositions d =
     (if isArray d then
        (case d of
           CurveData cs \<Rightarrow> concat (map curvePositions cs)
         | PointData ps \<Rightarrow> concat (map (\<lambda>point. []) ps)
         | Undefined \<Rightarrow> [])
      else if isArray d then
        (case d of
           PointData ps \<Rightarrow> pushPoints ps
         | _ \<Rightarrow> [])
      else [])"

definition closePositions :: "bool \<Rightarrow> real list \<Rightarrow> real list" where
  "closePositions c positions =
     (if c \<and> length positions > 0
      then positions @ [positions ! 0, positions ! 1, positions ! 2]
      else positions)"

text \<open>Lines 114 to 160 for a resolved bracket; the only write to the track is the last step.\<close>

definition renderBracket :: "spline \<Rightarrow> real \<Rightarrow> nat \<Rightarrow> nat \<Rightarrow> error + spline" where
  "renderBracket s targetFrame i j =
     (case interpolateFrames (frames s) targetFrame i j of
        Inl e \<Rightarrow> Inl e
      | Inr d \<Rightarrow> Inr (s\<lparr>geometry := Some (closePositions (closed_flag s) (buildPositions d))\<rparr>))"

definition updateSplineGeometry :: "metadata option \<Rightarrow> spline \<Rightarrow> real \<Rightarrow> error + spline" where
  "updateSplineGeometry md s time =
     (case md of
        None \<Rightarrow> Inl TypeError
      | Some m \<Rightarrow>
          (let targetFrame = time * frameRateOrDefault m in
           case findKeyframes (frames s) targetFrame 0 None of
             (None, None) \<Rightarrow> Inr s
           | (Some i, None) \<Rightarrow> renderBracket s targetFrame i i
           | (None, Some j) \<Rightarrow> renderBracket s targetFrame j j
           | (Some i, Some j) \<Rightarrow> renderBracket s targetFrame i j))"

subsection \<open>Playback controller\<close>

text \<open>
  An operation returns the loader as it is left and the exception, if one escaped. The
  \<^verbatim>\<open>forEach\<close> of \<^verbatim>\<open>updateSplines\<close> stops at the first throw: the tracks before it are
  updated, the rest are as they were.
\<close>

fun updateSplines_loop :: "metadata option \<Rightarrow> real \<Rightarrow> spline list \<Rightarrow> spline list \<times> error option" where
  "updateSplines_loop md time [] = ([], None)"
| "updateSplines_loop md time (s # ss) =
     (case updateSplineGeometry md s time of
        Inl e \<Rightarrow> (s # ss, Some e)
      | Inr s' \<Rightarrow> (case updateSplines_loop md time ss of (ss', r) \<Rightarrow> (s' # ss', r)))"

definition updateSplines :: "splineLoader \<Rightarrow> splineLoader \<times> error option" where
  "updateSplines st =
     (case updateSplines_loop (metadata st) (currentTime st) (splines st) of
        (ss, r) \<Rightarrow> (st\<lparr>splines := ss\<rparr>, r))"

text \<open>
  The operator \<^verbatim>\<open>%\<close> on numbers: the remainder of the division truncated towards zero,
  with the sign of the dividend. It is only reached with a divisor other than 0.
\<close>

definition trunc :: "real \<Rightarrow> int" where
  "trunc r = (if r \<ge> 0 then \<lfloor>r\<rfloor> else \<lceil>r\<rceil>)"

definition jsRem :: "real \<Rightarrow> real \<Rightarrow> real" where
  "jsRem a b = a - b * of_int (trunc (a / b))"

text \<open>
  \<^verbatim>\<open>update\<close>: the guard \<^verbatim>\<open>!this.isPlaying || this.duration === 0\<close> is read from left
  to right, as two tests with the same early return.
\<close>

definition update :: "real \<Rightarrow> splineLoader \<Rightarrow> splineLoader \<times> error option" where
  "update deltaTime st =
     (if \<not> isPlaying st then (st, None)
      else if duration st = 0 then (st, None)
      else
        (let st1 = st\<lparr>currentTime := currentTime st + deltaTime * speed st\<rparr>;
             st2 =
               (if loop st1 then st1\<lparr>currentTime := jsRem (currentTime st1) (duration st1)\<rparr>
                else
                  (let st' = st1\<lparr>currentTime := min (currentTime st1) (duration st1)\<rparr> in
                   if currentTime st' \<ge> duration st' then st'\<lparr>isPlaying := False\<rparr> else st'))
         in updateSplines st2))"

definition setTime :: "real \<Rightarrow> splineLoader \<Rightarrow> splineLoader \<times> error option" where
  "setTime time st = updateSplines (st\<lparr>currentTime := max 0 (min time (duration st))\<rparr>)"

definition setProgress :: "real \<Rightarrow> splineLoader \<Rightarrow> splineLoader \<times> error option" where
  "setProgress progress st =
     (let clampedProgress = max 0 (min 1 progress) in setTime (clampedProgress * duration st) st)"

definition play :: "splineLoader \<Rightarrow> splineLoader" where
  "play st = st\<lparr>isPlaying := True\<rparr>"

definition pause :: "splineLoader \<Rightarrow> splineLoader" where
  "pause st = st\<lparr>isPlaying := False\<rparr>"

definition stop :: "splineLoader \<Rightarrow> splineLoader \<times> error option" where
  "stop st = updateSplines (st\<lparr>isPlaying := False, currentTime := 0\<rparr>)"

subsection \<open>Construction and parsing\<close>

text \<open>The constructor of \<^verbatim>\<open>SplineLoader\<close>.\<close>

definition newSplineLoader :: splineLoader where
  "newSplineLoader =
     \<lparr> splines = [], currentTime = 0, duration = 0, isPlaying = False, loop = True,
       speed = 1, metadata = None \<rparr>"

text \<open>One entry of \<^verbatim>\<open>data.splines\<close>, and the parsed JSON document.\<close>

record splineData =
  sd_name :: string
  sd_frames :: "keyframe list"

record assetData =
  data_metadata :: "metadata option"
  data_splines :: "splineData list"

text \<open>
  The \<^verbatim>\<open>forEach\<close> of \<^verbatim>\<open>parseSplineData\<close>: the tracks pushed so far, the running
  \<^verbatim>\<open>maxFrame\<close>, and the exception if the first geometry of a track throws.
\<close>

fun parseSplines ::
  "metadata \<Rightarrow> splineData list \<Rightarrow> real \<Rightarrow> spline list \<Rightarrow> (spline list \<times> real) \<times> error option" where
  "parseSplines md [] maxFrame acc = ((acc, maxFrame), None)"
| "parseSplines md (sd # rest) maxFrame acc =
     (let s = \<lparr> name = sd_name sd, frames = sd_frames sd, geometry = None,
                material = \<lparr> color = 65280, linewidth = 2 \<rparr>, mesh = None,
                closed_flag = (case closed_md md of Some b \<Rightarrow> b | None \<Rightarrow> False) \<rparr>;
          maxFrame' = foldl (\<lambda>m f. max m (frame f)) maxFrame (sd_frames sd)
      in case updateSplineGeometry (Some md) s 0 of
           Inl e \<Rightarrow> ((acc, maxFrame'), Some e)
         | Inr s' \<Rightarrow>
             parseSplines md rest maxFrame'
               (acc @ [s'\<lparr>mesh := Some \<lparr> mesh_name = name s', mesh_material = material s',
                                         visible = True \<rparr>\<rparr>]))"

definition parseSplineData :: "assetData \<Rightarrow> splineLoader \<Rightarrow> splineLoader \<times> error option" where
  "parseSplineData data st =
     (let md = (case data_metadata data of
                  Some m \<Rightarrow> m
                | None \<Rightarrow> \<lparr> frameRate = None, closed_md = None \<rparr>);
          st1 = st\<lparr>metadata := Some md, splines := []\<rparr>
      in case parseSplines md (data_splines data) 0 [] of
           ((ss, maxFrame), Some e) \<Rightarrow> (st1\<lparr>splines := ss\<rparr>, Some e)
         | ((ss, maxFrame), None) \<Rightarrow>
             (st1\<lparr>splines := ss, duration := maxFrame / frameRateOrDefault md\<rparr>, None))"

subsection \<open>The playback invariant and example inputs\<close>

definition timeInRange :: "splineLoader \<Rightarrow> bool" where
  "timeInRange st = (0 \<le> currentTime st \<and> currentTime st \<le> duration st)"

definition vec :: "real \<Rightarrow> real \<Rightarrow> real \<Rightarrow> point3" where
  "vec a b c = \<lparr> x = a, y = b, z = c \<rparr>"

text \<open>The metadata \<^verbatim>\<open>{}\<close>: 30 frames per second, open tracks.\<close>

definition emptyMetadata :: metadata where
  "emptyMetadata = \<lparr> frameRate = None, closed_md = None \<rparr>"

text \<open>A track with one keyframe of two raw points.\<close>

definition rawPointTrack :: spline where
  "rawPointTrack =
     \<lparr> name = ''track'',
       frames = [\<lparr> frame = 0, curves = None, points = Some [vec 1 2 3, vec 4 5 6] \<rparr>],
       geometry = None, material = \<lparr> color = 65280, linewidth = 2 \<rparr>, mesh = None,
       closed_flag = False \<rparr>"

text \<open>A playing, looping loader of duration 10 and one that plays once, of duration 5.\<close>

definition loopingLoader :: splineLoader where
  "loopingLoader = newSplineLoader\<lparr>duration := 10, isPlaying := True\<rparr>"

definition onceLoader :: splineLoader where
  "onceLoader = newSplineLoader\<lparr>duration := 5, loop := False, isPlaying := True\<rparr>"

text \<open>A track without keyframes whose geometry already holds one position.\<close>

definition emptyTrack :: spline where
  "emptyTrack =
     \<lparr> name = ''empty'', frames = [], geometry = Some [1, 2, 3],
       material = \<lparr> color = 65280, linewidth = 2 \<rparr>, mesh = None, closed_flag = False \<rparr>"

definition twoTrackLoader :: splineLoader where
  "twoTrackLoader =
     \<lparr> splines = [rawPointTrack, emptyTrack], currentTime = 0, duration = 1, isPlaying = True,
       loop = True, speed = 1, metadata = Some emptyMetadata \<rparr>"

text \<open>A control point with handles of length zero.\<close>

definition controlPoint :: "point3 \<Rightarrow> bezierPoint" where
  "controlPoint k = \<lparr> knot = k, inHandle = k, outHandle = k \<rparr>"

text \<open>
  A document with one track whose first keyframe carries curves only and whose second
  keyframe carries points only, and one whose keyframes carry neither.
\<close>

definition mixedAsset :: assetData where
  "mixedAsset =
     \<lparr> data_metadata = None,
       data_splines =
         [\<lparr> sd_name = ''mixed'',
            sd_frames =
              [\<lparr> frame = 0,
                 curves = Some [\<lparr> splineIndex = Some 1,
                                  curve_points = Some [controlPoint (vec 0 0 0)] \<rparr>],
                 points = None \<rparr>,
               \<lparr> frame = 30, curves = None, points = Some [vec 1 2 3] \<rparr>] \<rparr>] \<rparr>"

definition bareAsset :: assetData where
  "bareAsset =
     \<lparr> data_metadata = None,
       data_splines =
         [\<lparr> sd_name = ''bare'',
            sd_frames = [\<lparr> frame = 0, curves = None, points = None \<rparr>,
                         \<lparr> frame = 30, curves = None, points = None \<rparr>] \<rparr>] \<rparr>"

text \<open>Two keyframes of one single-point segment each, with knots (0,0,0) and (10,0,0).\<close>

definition midFrames :: "keyframe list" where
  "midFrames =
     [\<lparr> frame = 0,
        curves = Some [\<lparr> splineIndex = None, curve_points = Some [controlPoint (vec 0 0 0)] \<rparr>],
        points = None \<rparr>,
      \<lparr> frame = 10,
        curves = Some [\<lparr> splineIndex = None, curve_points = Some [controlPoint (vec 10 0 0)] \<rparr>],
        points = None \<rparr>]"

section \<open>Properties\<close>

subsection \<open>What an update of the tracks keeps\<close>

lemma renderBracket_fields:
  "renderBracket s tf i j = Inr s' \<Longrightarrow> s' = s\<lparr>geometry := geometry s'\<rparr>"
  by (auto simp: renderBracket_def split: sum.splits)

lemma updateSplineGeometry_fields:
  "updateSplineGeometry md s time = Inr s' \<Longrightarrow> s' = s\<lparr>geometry := geometry s'\<rparr>"
  by (auto simp: updateSplineGeometry_def Let_def split: option.splits prod.splits
      dest: renderBracket_fields)

lemma updateSplines_loop_Inl:
  "updateSplineGeometry md s time = Inl e \<Longrightarrow>
     updateSplines_loop md time (s # ss) = (s # ss, Some e)"
  by simp

lemma updateSplines_loop_Inr:
  "updateSplineGeometry md s time = Inr s' \<Longrightarrow>
     updateSplines_loop md time (s # ss) =
       (s' # fst (updateSplines_loop md time ss), snd (updateSplines_loop md time ss))"
  by (simp split: prod.splits)

lemma updateSplines_loop_length:
  "length (fst (updateSplines_loop md time ss)) = length ss"
  by (induction ss) (auto split: sum.splits prod.splits)

lemma updateSplines_loop_nth:
  "i < length ss \<Longrightarrow>
     fst (updateSplines_loop md time ss) ! i = ss ! i \<or>
     updateSplineGeometry md (ss ! i) time = Inr (fst (updateSplines_loop md time ss) ! i)"
proof (induction ss arbitrary: i)
  case Nil
  then show ?case by simp
next
  case (Cons s ss)
  show ?case
  proof (cases "updateSplineGeometry md s time")
    case (Inl e)
    then show ?thesis by simp
  next
    case (Inr s')
    show ?thesis
    proof (cases i)
      case 0
      then show ?thesis unfolding updateSplines_loop_Inr[OF Inr] using Inr by simp
    next
      case (Suc k)
      with Cons.prems have "k < length ss" by simp
      from Cons.IH[OF this] Suc show ?thesis unfolding updateSplines_loop_Inr[OF Inr] by simp
    qed
  qed
qed

lemma updateSplines_loop_ungeometry:
  "map (\<lambda>s. s\<lparr>geometry := None\<rparr>) (fst (updateSplines_loop md time ss)) =
   map (\<lambda>s. s\<lparr>geometry := None\<rparr>) ss"
proof (induction ss)
  case Nil
  then show ?case by simp
next
  case (Cons s ss)
  show ?case
  proof (cases "updateSplineGeometry md s time")
    case (Inl e)
    then show ?thesis by simp
  next
    case (Inr s')
    from updateSplineGeometry_fields[OF Inr] obtain g where "s' = s\<lparr>geometry := g\<rparr>" ..
    then have "s'\<lparr>geometry := None\<rparr> = s\<lparr>geometry := None\<rparr>" by simp
    with Cons.IH show ?thesis unfolding updateSplines_loop_Inr[OF Inr] by simp
  qed
qed

lemma updateSplines_frame:
  "fst (updateSplines st) = st\<lparr>splines := fst (updateSplines_loop (metadata st) (currentTime st) (splines st))\<rparr>"
  by (simp add: updateSplines_def split: prod.splits)

lemma updateSplines_fields:
  "currentTime (fst (updateSplines st)) = currentTime st"
  "duration (fst (updateSplines st)) = duration st"
  "isPlaying (fst (updateSplines st)) = isPlaying st"
  "loop (fst (updateSplines st)) = loop st"
  "speed (fst (updateSplines st)) = speed st"
  "metadata (fst (updateSplines st)) = metadata st"
  by (simp_all add: updateSplines_frame)

lemma updateSplines_ungeometry:
  "map (\<lambda>s. s\<lparr>geometry := None\<rparr>) (splines (fst (updateSplines st))) =
   map (\<lambda>s. s\<lparr>geometry := None\<rparr>) (splines st)"
  by (simp add: updateSplines_frame updateSplines_loop_ungeometry)

lemma ungeometry_fields:
  assumes "map (\<lambda>s. s\<lparr>geometry := None\<rparr>) ss' = map (\<lambda>s. s\<lparr>geometry := None\<rparr>) ss"
  shows "map name ss' = map name ss \<and> map frames ss' = map frames ss \<and>
         map closed_flag ss' = map closed_flag ss \<and> map material ss' = map material ss \<and>
         map mesh ss' = map mesh ss"
proof -
  have n: "map name ss' = map (name \<circ> (\<lambda>s. s\<lparr>geometry := None\<rparr>)) ss'" by (simp add: comp_def)
  have f: "map frames ss' = map (frames \<circ> (\<lambda>s. s\<lparr>geometry := None\<rparr>)) ss'" by (simp add: comp_def)
  have c: "map closed_flag ss' = map (closed_flag \<circ> (\<lambda>s. s\<lparr>geometry := None\<rparr>)) ss'" by (simp add: comp_def)
  have m: "map material ss' = map (material \<circ> (\<lambda>s. s\<lparr>geometry := None\<rparr>)) ss'" by (simp add: comp_def)
  have v: "map mesh ss' = map (mesh \<circ> (\<lambda>s. s\<lparr>geometry := None\<rparr>)) ss'" by (simp add: comp_def)
  have n2: "map name ss = map (name \<circ> (\<lambda>s. s\<lparr>geometry := None\<rparr>)) ss" by (simp add: comp_def)
  have f2: "map frames ss = map (frames \<circ> (\<lambda>s. s\<lparr>geometry := None\<rparr>)) ss" by (simp add: comp_def)
  have c2: "map closed_flag ss = map (closed_flag \<circ> (\<lambda>s. s\<lparr>geometry := None\<rparr>)) ss" by (simp add: comp_def)
  have m2: "map material ss = map (material \<circ> (\<lambda>s. s\<lparr>geometry := None\<rparr>)) ss" by (simp add: comp_def)
  have v2: "map mesh ss = map (mesh \<circ> (\<lambda>s. s\<lparr>geometry := None\<rparr>)) ss" by (simp add: comp_def)
  show ?thesis
    unfolding n f c m v n2 f2 c2 m2 v2 map_map[symmetric] assms by simp
qed

lemma updateSplineGeometry_no_frames:
  "frames s = [] \<Longrightarrow> updateSplineGeometry (Some m) s time = Inr s"
  by (simp add: updateSplineGeometry_def)

lemma updateSplineGeometry_no_frames_any:
  assumes "frames s = []" "updateSplineGeometry md s time = Inr s'"
  shows "s' = s"
proof (cases md)
  case None
  with assms(2) show ?thesis by (simp add: updateSplineGeometry_def)
next
  case (Some m)
  with assms updateSplineGeometry_no_frames[of s m time] show ?thesis by simp
qed

lemma updateSplines_loop_no_frames:
  assumes "i < length ss" "frames (ss ! i) = []"
  shows "fst (updateSplines_loop md time ss) ! i = ss ! i"
  using updateSplines_loop_nth[OF assms(1), of md time] updateSplineGeometry_no_frames_any[OF assms(2)]
  by metis

lemma updateSplines_no_frames:
  assumes "i < length (splines st)" "frames (splines st ! i) = []"
  shows "splines (fst (updateSplines st)) ! i = splines st ! i"
  using updateSplines_loop_no_frames[OF assms] by (simp add: updateSplines_frame)

lemma updateSplines_loop_rendered:
  "snd (updateSplines_loop md time ss) = None \<Longrightarrow> i < length ss \<Longrightarrow>
     updateSplineGeometry md (ss ! i) time = Inr (fst (updateSplines_loop md time ss) ! i)"
proof (induction ss arbitrary: i)
  case Nil
  then show ?case by simp
next
  case (Cons s ss)
  show ?case
  proof (cases "updateSplineGeometry md s time")
    case (Inl e)
    with Cons.prems(1) show ?thesis by simp
  next
    case (Inr s')
    from Cons.prems(1) have n: "snd (updateSplines_loop md time ss) = None"
      unfolding updateSplines_loop_Inr[OF Inr] by simp
    show ?thesis
    proof (cases i)
      case 0
      then show ?thesis unfolding updateSplines_loop_Inr[OF Inr] using Inr by simp
    next
      case (Suc k)
      with Cons.prems(2) have "k < length ss" by simp
      from Cons.IH[OF n this] Suc show ?thesis
        unfolding updateSplines_loop_Inr[OF Inr] by simp
    qed
  qed
qed

lemma updateSplines_rendered:
  assumes "snd (updateSplines st) = None" "i < length (splines st)"
  shows "updateSplineGeometry (metadata st) (splines st ! i) (currentTime st) =
           Inr (splines (fst (updateSplines st)) ! i)"
proof -
  from assms(1) have "snd (updateSplines_loop (metadata st) (currentTime st) (splines st)) = None"
    by (simp add: updateSplines_def split: prod.splits)
  from updateSplines_loop_rendered[OF this assms(2)] show ?thesis
    by (simp add: updateSplines_frame)
qed

lemma updateSplines_length:
  "length (splines (fst (updateSplines st))) = length (splines st)"
  by (simp add: updateSplines_frame updateSplines_loop_length)

subsection \<open>The remainder operator and the time step\<close>

lemma jsRem_nonneg:
  assumes "0 \<le> a" "0 < b"
  shows "jsRem a b = a - b * of_int \<lfloor>a / b\<rfloor>" "0 \<le> jsRem a b" "jsRem a b < b"
proof -
  from assms have q: "0 \<le> a / b" by simp
  then show e: "jsRem a b = a - b * of_int \<lfloor>a / b\<rfloor>" by (simp add: jsRem_def trunc_def)
  have ab: "b * (a / b) = a" using assms by simp
  have "b * of_int \<lfloor>a / b\<rfloor> \<le> b * (a / b)"
    using assms by (intro mult_left_mono) simp_all
  then have lo: "b * of_int \<lfloor>a / b\<rfloor> \<le> a" unfolding ab .
  then show "0 \<le> jsRem a b" unfolding e by simp
  have "a / b < of_int \<lfloor>a / b\<rfloor> + 1" by linarith
  then have "b * (a / b) < b * (of_int \<lfloor>a / b\<rfloor> + 1)"
    using assms by (intro mult_strict_left_mono) simp_all
  then have "a < b * (of_int \<lfloor>a / b\<rfloor> + 1)" unfolding ab .
  then show "jsRem a b < b" unfolding e by (simp add: algebra_simps)
qed

lemma update_loop_time:
  assumes "loop st" "isPlaying st" "duration st \<noteq> 0"
  shows "currentTime (fst (update deltaTime st)) =
           jsRem (currentTime st + deltaTime * speed st) (duration st)"
  using assms by (simp add: update_def Let_def updateSplines_fields)

lemma update_once_time:
  assumes "\<not> loop st" "isPlaying st" "duration st \<noteq> 0"
  shows "currentTime (fst (update deltaTime st)) =
           min (currentTime st + deltaTime * speed st) (duration st)"
    and "isPlaying (fst (update deltaTime st)) \<longleftrightarrow>
           currentTime st + deltaTime * speed st < duration st"
  using assms by (auto simp add: update_def Let_def updateSplines_fields)

lemma update_idle:
  "\<not> isPlaying st \<or> duration st = 0 \<Longrightarrow> update deltaTime st = (st, None)"
  by (auto simp: update_def)


subsection \<open>Interpolation of curve segments\<close>

lemma lerp_library_form: "lerp a b t = (1 - t) * a + t * b"
  by (simp add: lerp_def algebra_simps)

lemma interpolateBezierPoints_length:
  "length (interpolateBezierPoints ps1 ps2 t) = min (length ps1) (length ps2)"
  by (induction ps1 ps2 t rule: interpolateBezierPoints.induct) simp_all

lemma interpolateBezierPoints_nth:
  "n < length ps1 \<Longrightarrow> n < length ps2 \<Longrightarrow>
     interpolateBezierPoints ps1 ps2 t ! n = lerpBezierPoint (ps1 ! n) (ps2 ! n) t"
proof (induction ps1 arbitrary: ps2 n)
  case Nil
  then show ?case by simp
next
  case (Cons p1 ps1)
  then obtain p2 ps2' where ps2: "ps2 = p2 # ps2'" by (cases ps2) auto
  show ?case
  proof (cases n)
    case 0
    then show ?thesis by (simp add: ps2)
  next
    case (Suc m)
    with Cons.prems ps2 have "m < length ps1" "m < length ps2'" by simp_all
    from Cons.IH[OF this] Suc show ?thesis by (simp add: ps2)
  qed
qed

lemma interpolateBezierCurves_loop_step:
  assumes "curve_points c1 = Some ps1" "curve_points c2 = Some ps2"
  shows "interpolateBezierCurves_loop (c1 # cs1) (c2 # cs2) t i =
     \<lparr> splineIndex = Some (pickSplineIndex (splineIndex c1) (splineIndex c2) i),
       curve_points = Some (interpolateBezierPoints ps1 ps2 t) \<rparr>
     # interpolateBezierCurves_loop cs1 cs2 t (Suc i)"
  using assms by simp

lemma interpolateBezierCurves_loop_length:
  assumes "\<forall>c\<in>set cs1. curve_points c \<noteq> None" "\<forall>c\<in>set cs2. curve_points c \<noteq> None"
  shows "length (interpolateBezierCurves_loop cs1 cs2 t i) = min (length cs1) (length cs2)"
  using assms
proof (induction cs1 arbitrary: cs2 i)
  case Nil
  then show ?case by simp
next
  case (Cons c1 cs1)
  show ?case
  proof (cases cs2)
    case Nil
    then show ?thesis by simp
  next
    case (Cons c2 cs2')
    from Cons.prems(1) obtain ps1 where p1: "curve_points c1 = Some ps1" by auto
    from Cons.prems(2) Cons obtain ps2 where p2: "curve_points c2 = Some ps2" by auto
    from Cons.prems Cons have "\<forall>c\<in>set cs1. curve_points c \<noteq> None" "\<forall>c\<in>set cs2'. curve_points c \<noteq> None"
      by simp_all
    from Cons.IH[OF this] show ?thesis
      unfolding Cons interpolateBezierCurves_loop_step[OF p1 p2] by simp
  qed
qed

lemma interpolateBezierCurves_loop_nth:
  assumes "\<forall>c\<in>set cs1. curve_points c \<noteq> None" "\<forall>c\<in>set cs2. curve_points c \<noteq> None"
    "k < length cs1" "k < length cs2"
  shows "\<exists>ps1 ps2. curve_points (cs1 ! k) = Some ps1 \<and> curve_points (cs2 ! k) = Some ps2 \<and>
           interpolateBezierCurves_loop cs1 cs2 t i ! k =
             \<lparr> splineIndex = Some (pickSplineIndex (splineIndex (cs1 ! k)) (splineIndex (cs2 ! k)) (i + k)),
               curve_points = Some (interpolateBezierPoints ps1 ps2 t) \<rparr>"
  using assms
proof (induction cs1 arbitrary: cs2 i k)
  case Nil
  then show ?case by simp
next
  case (Cons c1 cs1)
  from Cons.prems(4) obtain c2 cs2' where cs2: "cs2 = c2 # cs2'" by (cases cs2) auto
  from Cons.prems(1) obtain ps1 where p1: "curve_points c1 = Some ps1" by auto
  from Cons.prems(2) cs2 obtain ps2 where p2: "curve_points c2 = Some ps2" by auto
  show ?case
  proof (cases k)
    case 0
    then show ?thesis
      unfolding cs2 interpolateBezierCurves_loop_step[OF p1 p2] using p1 p2 by simp
  next
    case (Suc m)
    from Cons.prems cs2 Suc have "\<forall>c\<in>set cs1. curve_points c \<noteq> None"
      "\<forall>c\<in>set cs2'. curve_points c \<noteq> None" "m < length cs1" "m < length cs2'"
      by simp_all
    from Cons.IH[OF this, of "Suc i"] show ?thesis
      unfolding cs2 interpolateBezierCurves_loop_step[OF p1 p2] Suc by simp
  qed
qed

lemma interpolateFrames_curves:
  assumes "i \<noteq> j" "curves (fs ! i) = Some curves1" "curves (fs ! j) = Some curves2"
    "frame (fs ! i) \<noteq> frame (fs ! j)"
  shows "interpolateFrames fs targetFrame i j =
           Inr (CurveData (interpolateBezierCurves curves1 curves2
                  ((targetFrame - frame (fs ! i)) / (frame (fs ! j) - frame (fs ! i)))))"
  using assms by (simp add: interpolateFrames_def Let_def)

subsection \<open>Claims about tessellation\<close>

text \<open>
  C1 (raw point frames are passed through into the position buffer). The source does not
  do this: the branch written for raw points repeats the condition of the branch before
  it and never runs, and the branch that runs pushes nothing for an element without
  \<^verbatim>\<open>points\<close>. Every array of raw points yields the empty position array; for the track
  \<open>rawPointTrack\<close> at time 0 the buffer handed to the geometry is empty, not
  \<open>[1, 2, 3, 4, 5, 6]\<close>, and closing the track adds nothing to an empty array.
\<close>

theorem raw_points_yield_empty_buffer:
  "buildPositions (PointData ps) = [] \<and>
   closePositions c (buildPositions (PointData ps)) = [] \<and>
   updateSplineGeometry (Some emptyMetadata) rawPointTrack 0 =
     Inr (rawPointTrack\<lparr>geometry := Some []\<rparr>)"
proof -
  have a: "buildPositions (PointData ps) = []"
    by (simp add: buildPositions_def isArray_def)
  then have k: "closePositions c (buildPositions (PointData ps)) = []"
    by (simp add: closePositions_def)
  have b: "updateSplineGeometry (Some emptyMetadata) rawPointTrack 0 =
     Inr (rawPointTrack\<lparr>geometry := Some []\<rparr>)"
    by (simp add: updateSplineGeometry_def rawPointTrack_def renderBracket_def
        interpolateFrames_def curvesOrPoints_def buildPositions_def isArray_def
        closePositions_def)
  from a k b show ?thesis by simp
qed

text \<open>
  C2 (a segment of exactly one control point emits that knot). The source does not do
  this: \<^verbatim>\<open>generateBezierCurve\<close> returns the empty array for fewer than two control
  points before it reaches the test for exactly one, so a segment of one control point
  contributes no position at all.
\<close>

theorem single_control_point_emits_nothing:
  "generateBezierCurve (Some [bp]) segments = [] \<and>
   curvePositions \<lparr> splineIndex = si, curve_points = Some [bp] \<rparr> = []"
  by (simp add: generateBezierCurve_def curvePositions_def pushPoints_def)

subsection \<open>Claims about the playback controller\<close>

text \<open>
  C4 (looping wrap-around). With \<open>loop\<close> set, while playing and with a positive duration,
  \<open>update\<close> leaves \<open>currentTime\<close> at the remainder (the operator \<^verbatim>\<open>%\<close>) of
  \<open>currentTime + deltaTime * speed\<close> by \<open>duration\<close>. For an advance that is not negative,
  however large, this is the time in \<open>[0, duration)\<close> that differs from the advanced time
  by a whole number of durations.
\<close>

theorem update_loop_wraps:
  assumes "loop st" "isPlaying st" "duration st > 0"
  shows "currentTime (fst (update deltaTime st)) =
           jsRem (currentTime st + deltaTime * speed st) (duration st) \<and>
         (0 \<le> currentTime st + deltaTime * speed st \<longrightarrow>
            0 \<le> currentTime (fst (update deltaTime st)) \<and>
            currentTime (fst (update deltaTime st)) < duration st \<and>
            currentTime st + deltaTime * speed st =
              of_int \<lfloor>(currentTime st + deltaTime * speed st) / duration st\<rfloor> * duration st +
              currentTime (fst (update deltaTime st)))"
proof -
  from assms have e: "currentTime (fst (update deltaTime st)) =
           jsRem (currentTime st + deltaTime * speed st) (duration st)"
    by (simp add: update_loop_time)
  show ?thesis
    unfolding e
    using jsRem_nonneg[of "currentTime st + deltaTime * speed st" "duration st"] assms(3)
    by simp
qed

text \<open>With duration 10 and speed 1, two calls \<open>update 7\<close> from time 0 leave the time at 4.\<close>

theorem update_loop_wraps_witness:
  "loop loopingLoader \<and> isPlaying loopingLoader \<and> duration loopingLoader > 0 \<and>
   currentTime (fst (update 7 loopingLoader)) = 7 \<and>
   currentTime (fst (update 7 (fst (update 7 loopingLoader)))) = 4"
proof -
  have a: "loop loopingLoader" "isPlaying loopingLoader" "duration loopingLoader > 0"
    by (simp_all add: loopingLoader_def newSplineLoader_def)
  have u: "update 7 loopingLoader = (loopingLoader\<lparr>currentTime := 7\<rparr>, None)"
    by (simp add: update_def loopingLoader_def newSplineLoader_def updateSplines_def
        jsRem_def trunc_def)
  have b: "loop (loopingLoader\<lparr>currentTime := 7\<rparr>)"
    "isPlaying (loopingLoader\<lparr>currentTime := 7\<rparr>)"
    "duration (loopingLoader\<lparr>currentTime := 7\<rparr>) > 0"
    by (simp_all add: loopingLoader_def newSplineLoader_def)
  have j: "jsRem (7 + 7 * 1) 10 = 4"
    by (simp add: jsRem_def trunc_def)
  from update_loop_wraps[OF b, of 7] j
  have "currentTime (fst (update 7 (loopingLoader\<lparr>currentTime := 7\<rparr>))) = 4"
    by (simp add: loopingLoader_def newSplineLoader_def)
  with a u show ?thesis by simp
qed

text \<open>
  C5 (terminal clamp without looping). With \<open>loop\<close> unset, while playing and with a positive
  duration, \<open>update\<close> leaves \<open>currentTime\<close> at the smaller of the advanced time and
  \<open>duration\<close>, so at most \<open>duration\<close>, and playback stays on exactly when the advanced
  time is below \<open>duration\<close>: it stops exactly when the time reaches the end.
\<close>

theorem update_once_clamps:
  assumes "\<not> loop st" "isPlaying st" "duration st > 0"
  shows "currentTime (fst (update deltaTime st)) =
           min (currentTime st + deltaTime * speed st) (duration st) \<and>
         currentTime (fst (update deltaTime st)) \<le> duration st \<and>
         (isPlaying (fst (update deltaTime st)) \<longleftrightarrow>
            currentTime st + deltaTime * speed st < duration st)"
  using assms update_once_time[of st deltaTime] by simp

text \<open>With duration 5 and speed 1, \<open>update 8\<close> from time 0 stops at time 5.\<close>

theorem update_once_clamps_witness:
  "\<not> loop onceLoader \<and> isPlaying onceLoader \<and> duration onceLoader > 0 \<and>
   currentTime (fst (update 8 onceLoader)) = 5 \<and> \<not> isPlaying (fst (update 8 onceLoader))"
proof -
  have a: "\<not> loop onceLoader" "isPlaying onceLoader" "duration onceLoader > 0"
    by (simp_all add: onceLoader_def newSplineLoader_def)
  from update_once_clamps[OF a, of 8] a show ?thesis
    by (simp add: onceLoader_def newSplineLoader_def)
qed

text \<open>
  C8 (boundary clamp of the progress). \<open>setProgress\<close> clamps its argument to \<open>[0, 1]\<close>,
  scales the clamped value by the duration and hands the product to \<open>setTime\<close>; its
  whole outcome (the loader it leaves, position buffers included, and the exception it
  may raise) is that of the clamped argument, so \<open>setProgress (-1)\<close> is \<open>setProgress 0\<close>
  and \<open>setProgress 2\<close> is \<open>setProgress 1\<close>. With a duration that is not negative the
  time it leaves is the clamped progress times the duration (0 for -1, the duration
  for 2), and when no exception escapes every track holds the geometry of
  \<open>updateSplineGeometry\<close> at that time.
\<close>

theorem setProgress_clamps:
  "(setProgress p st = setTime (max 0 (min 1 p) * duration st) st \<and>
    setProgress p st = setProgress (max 0 (min 1 p)) st \<and>
    setProgress (- 1) st = setProgress 0 st \<and>
    setProgress 2 st = setProgress 1 st \<and>
    length (splines (fst (setProgress p st))) = length (splines st)) \<and>
   (0 \<le> duration st \<longrightarrow>
      currentTime (fst (setProgress p st)) = max 0 (min 1 p) * duration st \<and>
      currentTime (fst (setProgress (- 1) st)) = 0 \<and>
      currentTime (fst (setProgress 2 st)) = duration st \<and>
      (snd (setProgress p st) = None \<longrightarrow>
         (\<forall>i<length (splines st).
            updateSplineGeometry (metadata st) (splines st ! i) (max 0 (min 1 p) * duration st) =
              Inr (splines (fst (setProgress p st)) ! i))))"
proof -
  let ?c = "max 0 (min 1 p)"
  let ?st = "st\<lparr>currentTime := max 0 (min (?c * duration st) (duration st))\<rparr>"
  have e: "setProgress p st = updateSplines ?st"
    by (simp add: setProgress_def setTime_def)
  have a: "setProgress p st = setTime (?c * duration st) st"
    "setProgress p st = setProgress ?c st"
    "setProgress (- 1) st = setProgress 0 st" "setProgress 2 st = setProgress 1 st"
    by (simp_all add: setProgress_def)
  have l: "length (splines (fst (setProgress p st))) = length (splines st)"
    unfolding e by (simp add: updateSplines_length)
  have ct: "\<And>q. currentTime (fst (setProgress q st)) =
      max 0 (min (max 0 (min 1 q) * duration st) (duration st))"
    by (simp add: setProgress_def setTime_def updateSplines_fields)
  have b: "currentTime (fst (setProgress p st)) = ?c * duration st \<and>
      currentTime (fst (setProgress (- 1) st)) = 0 \<and>
      currentTime (fst (setProgress 2 st)) = duration st \<and>
      (snd (setProgress p st) = None \<longrightarrow>
         (\<forall>i<length (splines st).
            updateSplineGeometry (metadata st) (splines st ! i) (?c * duration st) =
              Inr (splines (fst (setProgress p st)) ! i)))"
    if d: "0 \<le> duration st"
  proof -
    have c01: "0 \<le> ?c" "?c \<le> 1" by simp_all
    from d c01 have le: "?c * duration st \<le> duration st"
      by (simp add: mult_left_le_one_le)
    from d c01(1) have ge: "0 \<le> ?c * duration st" by simp
    from le ge have t: "max 0 (min (?c * duration st) (duration st)) = ?c * duration st"
      by simp
    have 1: "currentTime (fst (setProgress p st)) = ?c * duration st"
      unfolding ct t ..
    have 2: "currentTime (fst (setProgress (- 1) st)) = 0"
      "currentTime (fst (setProgress 2 st)) = duration st"
      using d by (simp_all add: ct)
    have 3: "updateSplineGeometry (metadata st) (splines st ! i) (?c * duration st) =
              Inr (splines (fst (setProgress p st)) ! i)"
      if "snd (setProgress p st) = None" "i < length (splines st)" for i
      using updateSplines_rendered[of ?st i] that unfolding e t by simp
    from 1 2 3 show ?thesis by blast
  qed
  from a l b show ?thesis by blast
qed

text \<open>
  On a loader of duration 4 with a track of raw points and a track without frames:
  progress 1/2 leaves the time at 2 and renders the first track, progress -1 leaves the
  time at 0 and progress 2 leaves it at 4.
\<close>

theorem setProgress_clamps_witness:
  "0 \<le> duration (twoTrackLoader\<lparr>duration := 4\<rparr>) \<and>
   currentTime (fst (setProgress (1 / 2) (twoTrackLoader\<lparr>duration := 4\<rparr>))) = 2 \<and>
   currentTime (fst (setProgress (- 1) (twoTrackLoader\<lparr>duration := 4\<rparr>))) = 0 \<and>
   currentTime (fst (setProgress 2 (twoTrackLoader\<lparr>duration := 4\<rparr>))) = 4 \<and>
   snd (setProgress (1 / 2) (twoTrackLoader\<lparr>duration := 4\<rparr>)) = None \<and>
   splines (fst (setProgress (1 / 2) (twoTrackLoader\<lparr>duration := 4\<rparr>))) =
     [rawPointTrack\<lparr>geometry := Some []\<rparr>, emptyTrack]"
proof -
  let ?st = "twoTrackLoader\<lparr>duration := 4\<rparr>"
  have d: "0 \<le> duration ?st" by (simp add: twoTrackLoader_def)
  have r: "updateSplineGeometry (Some emptyMetadata) rawPointTrack 2 =
      Inr (rawPointTrack\<lparr>geometry := Some []\<rparr>)"
    by (simp add: updateSplineGeometry_def rawPointTrack_def renderBracket_def
        interpolateFrames_def curvesOrPoints_def buildPositions_def isArray_def
        closePositions_def emptyMetadata_def frameRateOrDefault_def)
  have k: "updateSplineGeometry (Some emptyMetadata) emptyTrack 2 = Inr emptyTrack"
    by (simp add: updateSplineGeometry_def emptyTrack_def)
  have o: "setProgress (1 / 2) ?st =
      (?st\<lparr>currentTime := 2, splines := [rawPointTrack\<lparr>geometry := Some []\<rparr>, emptyTrack]\<rparr>, None)"
    by (simp add: setProgress_def setTime_def updateSplines_def twoTrackLoader_def r k)
  from setProgress_clamps[of "1 / 2" ?st] d have
    "currentTime (fst (setProgress (1 / 2) ?st)) = max 0 (min 1 (1 / 2)) * duration ?st"
    "currentTime (fst (setProgress (- 1) ?st)) = 0"
    "currentTime (fst (setProgress 2 ?st)) = duration ?st"
    by blast+
  then have c: "currentTime (fst (setProgress (1 / 2) ?st)) = 2"
    "currentTime (fst (setProgress (- 1) ?st)) = 0"
    "currentTime (fst (setProgress 2 ?st)) = 4"
    by (simp_all add: twoTrackLoader_def)
  from d c o show ?thesis by simp
qed

text \<open>
  C10 (frame of scrubbing). \<open>setTime\<close> and \<open>setProgress\<close> change nothing but
  \<open>currentTime\<close> and the geometry of the tracks: the playing flag, the loop flag, the
  speed, the duration and the metadata are as before, and the tracks keep, in order,
  their names, frames, closed flags, materials and meshes (the mesh holds the visibility).
\<close>

theorem scrubbing_changes_time_and_geometry_only:
  "isPlaying (fst (setTime t st)) = isPlaying st \<and>
   loop (fst (setTime t st)) = loop st \<and>
   speed (fst (setTime t st)) = speed st \<and>
   duration (fst (setTime t st)) = duration st \<and>
   metadata (fst (setTime t st)) = metadata st \<and>
   map name (splines (fst (setTime t st))) = map name (splines st) \<and>
   map frames (splines (fst (setTime t st))) = map frames (splines st) \<and>
   map closed_flag (splines (fst (setTime t st))) = map closed_flag (splines st) \<and>
   map material (splines (fst (setTime t st))) = map material (splines st) \<and>
   map mesh (splines (fst (setTime t st))) = map mesh (splines st) \<and>
   isPlaying (fst (setProgress p st)) = isPlaying st \<and>
   loop (fst (setProgress p st)) = loop st \<and>
   speed (fst (setProgress p st)) = speed st \<and>
   duration (fst (setProgress p st)) = duration st \<and>
   metadata (fst (setProgress p st)) = metadata st \<and>
   map name (splines (fst (setProgress p st))) = map name (splines st) \<and>
   map frames (splines (fst (setProgress p st))) = map frames (splines st) \<and>
   map closed_flag (splines (fst (setProgress p st))) = map closed_flag (splines st) \<and>
   map material (splines (fst (setProgress p st))) = map material (splines st) \<and>
   map mesh (splines (fst (setProgress p st))) = map mesh (splines st)"
proof -
  have a: "\<And>u. map (\<lambda>s. s\<lparr>geometry := None\<rparr>) (splines (fst (setTime u st))) =
        map (\<lambda>s. s\<lparr>geometry := None\<rparr>) (splines st)"
    unfolding setTime_def by (simp add: updateSplines_ungeometry)
  have b: "\<And>u. isPlaying (fst (setTime u st)) = isPlaying st \<and>
      loop (fst (setTime u st)) = loop st \<and>
      speed (fst (setTime u st)) = speed st \<and>
      duration (fst (setTime u st)) = duration st \<and>
      metadata (fst (setTime u st)) = metadata st"
    unfolding setTime_def by (simp add: updateSplines_fields)
  have c: "setProgress p st = setTime (max 0 (min 1 p) * duration st) st"
    by (simp add: setProgress_def)
  show ?thesis
    unfolding c
    using ungeometry_fields[OF a[of t]]
      ungeometry_fields[OF a[of "max 0 (min 1 p) * duration st"]]
      b[of t] b[of "max 0 (min 1 p) * duration st"]
    by simp
qed

subsection \<open>Claims about interpolation\<close>

text \<open>
  C6 (pairwise interpolation of curve frames). For a bracket of two different frames
  \<open>i\<close> and \<open>j\<close> that both carry curves, with different frame numbers, whose segments all
  carry their array of control points, the interpolated data at the factor
  \<open>t = (targetFrame - frame i) / (frame j - frame i)\<close> is the list of as many segments as
  the shorter side has (the extra segments of the longer side are dropped, no error); its
  segment \<open>k\<close> pairs the control points of the two segments \<open>k\<close> up to the shorter
  count; and knot, in-handle and out-handle of each pair are interpolated on their own,
  component by component, by \<open>a + (b - a) * t\<close>.
\<close>

theorem curve_frames_interpolate_pairwise:
  assumes "i \<noteq> j" "curves (fs ! i) = Some curves1" "curves (fs ! j) = Some curves2"
    "frame (fs ! i) \<noteq> frame (fs ! j)"
    "\<forall>c\<in>set curves1. curve_points c \<noteq> None" "\<forall>c\<in>set curves2. curve_points c \<noteq> None"
    "t = (targetFrame - frame (fs ! i)) / (frame (fs ! j) - frame (fs ! i))"
  shows "\<exists>res. interpolateFrames fs targetFrame i j = Inr (CurveData res) \<and>
           length res = min (length curves1) (length curves2) \<and>
           (\<forall>k<length res. \<exists>ps1 ps2 ps.
              curve_points (curves1 ! k) = Some ps1 \<and> curve_points (curves2 ! k) = Some ps2 \<and>
              curve_points (res ! k) = Some ps \<and>
              length ps = min (length ps1) (length ps2) \<and>
              (\<forall>n<length ps.
                 knot (ps ! n) = lerpPoint (knot (ps1 ! n)) (knot (ps2 ! n)) t \<and>
                 inHandle (ps ! n) = lerpPoint (inHandle (ps1 ! n)) (inHandle (ps2 ! n)) t \<and>
                 outHandle (ps ! n) = lerpPoint (outHandle (ps1 ! n)) (outHandle (ps2 ! n)) t)) \<and>
           (\<forall>a b. x (lerpPoint a b t) = x a + (x b - x a) * t \<and>
                  y (lerpPoint a b t) = y a + (y b - y a) * t \<and>
                  z (lerpPoint a b t) = z a + (z b - z a) * t)"
proof -
  let ?res = "interpolateBezierCurves curves1 curves2 t"
  have e: "interpolateFrames fs targetFrame i j = Inr (CurveData ?res)"
    unfolding assms(7) by (rule interpolateFrames_curves[OF assms(1-4)])
  have len: "length ?res = min (length curves1) (length curves2)"
    unfolding interpolateBezierCurves_def
    by (rule interpolateBezierCurves_loop_length[OF assms(5,6)])
  have seg: "\<exists>ps1 ps2 ps.
              curve_points (curves1 ! k) = Some ps1 \<and> curve_points (curves2 ! k) = Some ps2 \<and>
              curve_points (?res ! k) = Some ps \<and>
              length ps = min (length ps1) (length ps2) \<and>
              (\<forall>n<length ps.
                 knot (ps ! n) = lerpPoint (knot (ps1 ! n)) (knot (ps2 ! n)) t \<and>
                 inHandle (ps ! n) = lerpPoint (inHandle (ps1 ! n)) (inHandle (ps2 ! n)) t \<and>
                 outHandle (ps ! n) = lerpPoint (outHandle (ps1 ! n)) (outHandle (ps2 ! n)) t)"
    if k: "k < length ?res" for k
  proof -
    from k len have k1: "k < length curves1" and k2: "k < length curves2" by simp_all
    from interpolateBezierCurves_loop_nth[OF assms(5,6) k1 k2, of t 0]
    obtain ps1 ps2 where p1: "curve_points (curves1 ! k) = Some ps1"
      and p2: "curve_points (curves2 ! k) = Some ps2"
      and r: "curve_points (?res ! k) = Some (interpolateBezierPoints ps1 ps2 t)"
      unfolding interpolateBezierCurves_def by auto
    have pts: "knot (interpolateBezierPoints ps1 ps2 t ! n) = lerpPoint (knot (ps1 ! n)) (knot (ps2 ! n)) t \<and>
          inHandle (interpolateBezierPoints ps1 ps2 t ! n) = lerpPoint (inHandle (ps1 ! n)) (inHandle (ps2 ! n)) t \<and>
          outHandle (interpolateBezierPoints ps1 ps2 t ! n) = lerpPoint (outHandle (ps1 ! n)) (outHandle (ps2 ! n)) t"
      if "n < length (interpolateBezierPoints ps1 ps2 t)" for n
    proof -
      from that have "n < length ps1" "n < length ps2"
        by (simp_all add: interpolateBezierPoints_length)
      from interpolateBezierPoints_nth[OF this] show ?thesis
        by (simp add: lerpBezierPoint_def)
    qed
    from p1 p2 r pts interpolateBezierPoints_length[of ps1 ps2 t] show ?thesis by blast
  qed
  have lp: "\<forall>a b. x (lerpPoint a b t) = x a + (x b - x a) * t \<and>
                  y (lerpPoint a b t) = y a + (y b - y a) * t \<and>
                  z (lerpPoint a b t) = z a + (z b - z a) * t"
    by (simp add: lerpPoint_def lerp_def)
  from e len seg lp show ?thesis by blast
qed

text \<open>
  Two single-point segments with knots (0,0,0) and (10,0,0), at frames 0 and 10: at the
  target frame 5, so \<open>t = 1/2\<close>, the knot is (5,0,0).
\<close>

theorem curve_frames_interpolate_pairwise_witness:
  "(0::nat) \<noteq> 1 \<and> frame (midFrames ! 0) \<noteq> frame (midFrames ! 1) \<and>
   interpolateFrames midFrames 5 0 1 =
     Inr (CurveData [\<lparr> splineIndex = Some 1,
                       curve_points = Some [controlPoint (vec 5 0 0)] \<rparr>])"
proof -
  let ?c1 = "[\<lparr> splineIndex = None, curve_points = Some [controlPoint (vec 0 0 0)] \<rparr>]"
  let ?c2 = "[\<lparr> splineIndex = None, curve_points = Some [controlPoint (vec 10 0 0)] \<rparr>]"
  have h: "(0::nat) \<noteq> 1" "curves (midFrames ! 0) = Some ?c1" "curves (midFrames ! 1) = Some ?c2"
    "frame (midFrames ! 0) \<noteq> frame (midFrames ! 1)"
    "\<forall>c\<in>set ?c1. curve_points c \<noteq> None" "\<forall>c\<in>set ?c2. curve_points c \<noteq> None"
    "(1 / 2 :: real) = (5 - frame (midFrames ! 0)) / (frame (midFrames ! 1) - frame (midFrames ! 0))"
    by (simp_all add: midFrames_def)
  from curve_frames_interpolate_pairwise[OF h] obtain res where
    r: "interpolateFrames midFrames 5 0 1 = Inr (CurveData res)" by blast
  have v: "interpolateFrames midFrames 5 0 1 =
     Inr (CurveData [\<lparr> splineIndex = Some 1,
                       curve_points = Some [controlPoint (vec 5 0 0)] \<rparr>])"
    by (simp add: interpolateFrames_def midFrames_def interpolateBezierCurves_def controlPoint_def
        vec_def lerpBezierPoint_def lerpPoint_def lerp_def pickSplineIndex_def)
  from h(1,4) r v show ?thesis by simp
qed

subsection \<open>Claims about exceptions and untouched buffers\<close>

text \<open>The definitions unfolded to run the loader on a concrete document.\<close>

lemmas playback_eval =
  parseSplineData_def newSplineLoader_def updateSplineGeometry_def renderBracket_def
  interpolateFrames_def curvesOrPoints_def buildPositions_def isArray_def controlPoint_def
  vec_def closePositions_def frameRateOrDefault_def curvePositions_def generateBezierCurve_def
  pushPoints_def interpolatePoints_def setTime_def update_def play_def updateSplines_def
  jsRem_def trunc_def

text \<open>
  C3 (no steady-state call throws). The source does throw: \<^verbatim>\<open>interpolatePoints\<close> reads
  \<^verbatim>\<open>.length\<close> of its arguments unguarded. The document \<open>mixedAsset\<close> loads without
  an exception; on the loaded state \<open>setTime (1/2)\<close> and, once playing, \<open>update (1/2)\<close>
  reach the bracket of a frame with curves only and a frame with points only, and throw
  a \<^verbatim>\<open>TypeError\<close>. So does \<open>setTime (1/2)\<close> after loading \<open>bareAsset\<close>, whose frames
  carry neither array.
\<close>

theorem mixed_bracket_throws:
  "snd (parseSplineData mixedAsset newSplineLoader) = None \<and>
   snd (setTime (1 / 2) (fst (parseSplineData mixedAsset newSplineLoader))) = Some TypeError \<and>
   snd (update (1 / 2) (play (fst (parseSplineData mixedAsset newSplineLoader)))) =
     Some TypeError \<and>
   snd (parseSplineData bareAsset newSplineLoader) = None \<and>
   snd (setTime (1 / 2) (fst (parseSplineData bareAsset newSplineLoader))) = Some TypeError"
proof -
  have m: "parseSplineData mixedAsset newSplineLoader =
     (\<lparr> splines =
          [\<lparr> name = ''mixed'', frames = sd_frames (hd (data_splines mixedAsset)),
             geometry = Some [], material = \<lparr> color = 65280, linewidth = 2 \<rparr>,
             mesh = Some \<lparr> mesh_name = ''mixed'',
                           mesh_material = \<lparr> color = 65280, linewidth = 2 \<rparr>,
                           visible = True \<rparr>,
             closed_flag = False \<rparr>],
        currentTime = 0, duration = 1, isPlaying = False, loop = True, speed = 1,
        metadata = Some \<lparr> frameRate = None, closed_md = None \<rparr> \<rparr>, None)"
    by (simp add: mixedAsset_def playback_eval)
  have a: "snd (parseSplineData mixedAsset newSplineLoader) = None \<and>
     snd (setTime (1 / 2) (fst (parseSplineData mixedAsset newSplineLoader))) = Some TypeError \<and>
     snd (update (1 / 2) (play (fst (parseSplineData mixedAsset newSplineLoader)))) =
       Some TypeError"
    unfolding m by (simp add: mixedAsset_def playback_eval)
  have b: "snd (parseSplineData bareAsset newSplineLoader) = None \<and>
     snd (setTime (1 / 2) (fst (parseSplineData bareAsset newSplineLoader))) = Some TypeError"
    by (simp add: bareAsset_def playback_eval)
  from a b show ?thesis by simp
qed

text \<open>
  C9 (a track without keyframes keeps its buffer). For a track of the loader that has no
  frames, \<open>updateSplineGeometry\<close> returns the track as it is at every time, and after
  \<open>update\<close>, \<open>setTime\<close>, \<open>setProgress\<close> and \<open>stop\<close> the track, its position buffer
  included, is the one from before the call.
\<close>

theorem track_without_frames_untouched:
  assumes "i < length (splines st)" "frames (splines st ! i) = []"
  shows "updateSplineGeometry (Some m) (splines st ! i) time = Inr (splines st ! i) \<and>
         splines (fst (update deltaTime st)) ! i = splines st ! i \<and>
         splines (fst (setTime t st)) ! i = splines st ! i \<and>
         splines (fst (setProgress p st)) ! i = splines st ! i \<and>
         splines (fst (stop st)) ! i = splines st ! i"
proof -
  have k: "\<And>st'. splines st' = splines st \<Longrightarrow> splines (fst (updateSplines st')) ! i = splines st ! i"
    using updateSplines_no_frames assms by metis
  have 1: "splines (fst (update deltaTime st)) ! i = splines st ! i"
    by (cases "\<not> isPlaying st \<or> duration st = 0") (simp_all add: update_def Let_def k)
  have 2: "splines (fst (setTime t st)) ! i = splines st ! i"
    "splines (fst (setProgress p st)) ! i = splines st ! i"
    "splines (fst (stop st)) ! i = splines st ! i"
    by (simp_all add: setTime_def setProgress_def stop_def k)
  from 1 2 updateSplineGeometry_no_frames[OF assms(2)] show ?thesis by simp
qed

text \<open>The second track of \<open>twoTrackLoader\<close> has no frames and keeps its buffer \<open>[1, 2, 3]\<close>.\<close>

theorem track_without_frames_untouched_witness:
  "1 < length (splines twoTrackLoader) \<and> frames (splines twoTrackLoader ! 1) = [] \<and>
   geometry (splines (fst (update (1 / 2) twoTrackLoader)) ! 1) = Some [1, 2, 3] \<and>
   geometry (splines (fst (setTime 1 twoTrackLoader)) ! 1) = Some [1, 2, 3] \<and>
   geometry (splines (fst (setProgress 1 twoTrackLoader)) ! 1) = Some [1, 2, 3] \<and>
   geometry (splines (fst (stop twoTrackLoader)) ! 1) = Some [1, 2, 3]"
proof -
  have a: "1 < length (splines twoTrackLoader)" "frames (splines twoTrackLoader ! 1) = []"
    by (simp_all add: twoTrackLoader_def emptyTrack_def)
  have g: "geometry (splines twoTrackLoader ! 1) = Some [1, 2, 3]"
    by (simp add: twoTrackLoader_def emptyTrack_def)
  from track_without_frames_untouched[OF a, of emptyMetadata 0 "1 / 2" 1 1] a g show ?thesis by simp
qed

subsection \<open>The playback invariant\<close>

text \<open>
  The invariant holds in a fresh loader and in every loader that has parsed a document
  whose frame rate, if given, is not negative.
\<close>

lemma foldl_max_ge: "m \<le> foldl (\<lambda>m f. max m (frame f)) (m::real) fs"
proof (induction fs arbitrary: m)
  case Nil
  then show ?case by simp
next
  case (Cons f fs)
  have "m \<le> max m (frame f)" by simp
  also have "\<dots> \<le> foldl (\<lambda>m f. max m (frame f)) (max m (frame f)) fs" by (rule Cons.IH)
  finally show ?case by simp
qed

lemma parseSplines_maxFrame:
  "parseSplines md sds m acc = ((ss, m'), e) \<Longrightarrow> m \<le> m'"
proof (induction sds arbitrary: m acc)
  case Nil
  then show ?case by simp
next
  case (Cons sd sds)
  let ?m = "foldl (\<lambda>m f. max m (frame f)) m (sd_frames sd)"
  let ?s = "\<lparr> name = sd_name sd, frames = sd_frames sd, geometry = None,
              material = \<lparr> color = 65280, linewidth = 2 \<rparr>, mesh = None,
              closed_flag = (case closed_md md of Some b \<Rightarrow> b | None \<Rightarrow> False) \<rparr>"
  have ge: "m \<le> ?m" by (rule foldl_max_ge)
  show ?case
  proof (cases "updateSplineGeometry (Some md) ?s 0")
    case (Inl err)
    with Cons.prems have "?m = m'" by (simp add: Let_def)
    with ge show ?thesis by simp
  next
    case (Inr s')
    with Cons.prems obtain acc' where "parseSplines md sds ?m acc' = ((ss, m'), e)"
      by (simp add: Let_def)
    from Cons.IH[OF this] ge show ?thesis by simp
  qed
qed

lemma frameRateOrDefault_pos:
  "(case frameRate md of None \<Rightarrow> True | Some r \<Rightarrow> 0 \<le> r) \<Longrightarrow> 0 < frameRateOrDefault md"
  by (simp add: frameRateOrDefault_def split: option.splits)

lemma parseSplineData_timeInRange:
  assumes "case data_metadata data of None \<Rightarrow> True
           | Some md \<Rightarrow> (case frameRate md of None \<Rightarrow> True | Some r \<Rightarrow> 0 \<le> r)"
    and "parseSplineData data newSplineLoader = (st, None)"
  shows "timeInRange st"
proof -
  let ?md = "case data_metadata data of Some m \<Rightarrow> m | None \<Rightarrow> \<lparr> frameRate = None, closed_md = None \<rparr>"
  from assms(1) have "case frameRate ?md of None \<Rightarrow> True | Some r \<Rightarrow> 0 \<le> r"
    by (simp split: option.splits)
  then have fr: "0 < frameRateOrDefault ?md" by (rule frameRateOrDefault_pos)
  obtain ss m e where p: "parseSplines ?md (data_splines data) 0 [] = ((ss, m), e)"
    by (metis surj_pair)
  from parseSplines_maxFrame[OF p] have m: "0 \<le> m" .
  from assms(2) p have "currentTime st = 0" "duration st = m / frameRateOrDefault ?md"
    by (auto simp: parseSplineData_def Let_def newSplineLoader_def split: option.splits)
  with m fr show ?thesis by (simp add: timeInRange_def)
qed

lemma newSplineLoader_timeInRange: "timeInRange newSplineLoader"
  by (simp add: timeInRange_def newSplineLoader_def)

text \<open>
  C7, as the source has it. The time stays within \<open>[0, duration]\<close> under every public
  operation when it was there before the call and, for \<open>update\<close>, the advance
  \<open>deltaTime * speed\<close> is not negative.
\<close>

theorem timeInRange_preserved:
  assumes "timeInRange st" "0 \<le> deltaTime * speed st"
  shows "timeInRange (play st) \<and> timeInRange (pause st) \<and> timeInRange (fst (stop st)) \<and>
         timeInRange (fst (setTime t st)) \<and> timeInRange (fst (setProgress p st)) \<and>
         timeInRange (fst (update deltaTime st))"
proof -
  from assms(1) have ct: "0 \<le> currentTime st" "currentTime st \<le> duration st" and d: "0 \<le> duration st"
    by (simp_all add: timeInRange_def)
  have 1: "timeInRange (play st)" "timeInRange (pause st)"
    using assms(1) by (simp_all add: timeInRange_def play_def pause_def)
  have 2: "timeInRange (fst (stop st))"
    using d by (simp add: timeInRange_def stop_def updateSplines_fields)
  have 3: "\<And>u. timeInRange (fst (setTime u st))"
    using d by (simp add: timeInRange_def setTime_def updateSplines_fields)
  have 4: "timeInRange (fst (setProgress p st))"
    using 3 by (simp add: setProgress_def)
  have 5: "timeInRange (fst (update deltaTime st))"
  proof (cases "\<not> isPlaying st \<or> duration st = 0")
    case True
    then show ?thesis using assms(1) by (simp add: update_idle)
  next
    case False
    then have pl: "isPlaying st" and dn: "duration st \<noteq> 0" by simp_all
    with d have dp: "0 < duration st" by simp
    from ct assms(2) have adv: "0 \<le> currentTime st + deltaTime * speed st" by simp
    have dur: "duration (fst (update deltaTime st)) = duration st"
      using pl dn by (simp add: update_def Let_def updateSplines_fields)
    show ?thesis
    proof (cases "loop st")
      case True
      from jsRem_nonneg(2,3)[OF adv dp] update_loop_time[OF True pl dn, of deltaTime] dur
      show ?thesis by (simp add: timeInRange_def)
    next
      case False
      from update_once_time(1)[OF False pl dn, of deltaTime] adv d dur
      show ?thesis by (simp add: timeInRange_def)
    qed
  qed
  from 1 2 3 4 5 show ?thesis by simp
qed

text \<open>An instance on a loader with two tracks, duration 1 and an advance of 5/2.\<close>

theorem timeInRange_preserved_witness:
  "timeInRange twoTrackLoader \<and> 0 \<le> (5 / 2) * speed twoTrackLoader \<and>
    timeInRange (play twoTrackLoader) \<and> timeInRange (pause twoTrackLoader) \<and>
    timeInRange (fst (stop twoTrackLoader)) \<and>
    timeInRange (fst (setTime 7 twoTrackLoader)) \<and> timeInRange (fst (setProgress (- 1) twoTrackLoader)) \<and>
    timeInRange (fst (update (5 / 2) twoTrackLoader))"
proof -
  have a: "timeInRange twoTrackLoader" "0 \<le> (5 / 2) * speed twoTrackLoader"
    by (simp_all add: timeInRange_def twoTrackLoader_def)
  from timeInRange_preserved[OF a, of 7 "- 1"] a show ?thesis by simp
qed

text \<open>
  C7 as stated (for every \<open>deltaTime\<close> and speed) fails: \<open>update\<close> has no lower clamp, and
  the remainder keeps the sign of the dividend. From time 0, with duration 10 and speed 1,
  \<open>update (-3)\<close> leaves the time at -3.
\<close>

theorem timeInRange_broken_by_negative_advance:
  "timeInRange loopingLoader \<and> \<not> timeInRange (fst (update (- 3) loopingLoader))"
  by (simp add: timeInRange_def loopingLoader_def newSplineLoader_def update_def updateSplines_def
      jsRem_def trunc_def)


end
